theory Spec2Isabelle
  imports Complex_Main "HOL-Library.AList"
begin

text \<open>
  A shallow embedding of \<open>metadata_extractor.py\<close>: the coordinate converter
  (\<open>convert_gps_coordinate\<close>), the GPS extraction (\<open>extract_gps\<close>), the reading of the raw
  tags (\<open>get_exif_data\<close>) and the classifier (\<open>extract_metadata\<close>). The report printer,
  the JSON writer and the interactive \<open>main\<close> consume the report and are not modelled.
\<close>

section \<open>Python values\<close>

text \<open>
  The extractor is dynamically typed: a tag value handed over by the EXIF decoder is an
  integer, a float, a string, a byte string, a tuple of values or (for \<open>GPSInfo\<close>) a
  nested dictionary. The values are modelled by one datatype; every builtin the source
  applies to them (\<open>bool\<close>, \<open>float\<close>, \<open>hasattr(_, '__float__')\<close>, \<open>str\<close>, indexing,
  \<open>.items()\<close>, \<open>==\<close>) is a function on it, and a raised exception is the \<open>Inl\<close> side of a
  sum.

  A Python \<open>float\<close> is modelled by the rational number it denotes and float arithmetic is
  exact: the rounding of binary64 operations, the sign of zero, infinities and NaN are
  outside the model.
  A decoder rational \<open>n/d\<close> with \<open>d \<noteq> 0\<close> answers \<open>bool\<close>, \<open>float\<close>, \<open>str\<close> and \<open>==\<close> as the
  float \<open>n/d\<close> does and is represented by it.

  Dictionary keys are strings (tag names) or integers (numeric tag ids that the name
  tables do not resolve). A dictionary is the list of its items in insertion order;
  \<open>d[k] = v\<close> is \<open>AList.update\<close>, which overwrites in place or appends, as Python does.
\<close>

datatype pykey = KInt int | KStr string

datatype pyval =
    PNone
  | PBool bool
  | PInt int
  | PFloat rat
  | PStr string
  | PBytes string
  | PTuple "pyval list"
  | PDict "(pykey \<times> pyval) list"

type_synonym dict = "(pykey \<times> pyval) list"

datatype py_error =
    TypeError
  | ValueError
  | IndexError
  | KeyError
  | OverflowError
  | AttributeError
  | FileNotFoundError

text \<open>
  What the source takes from outside the repository: the two name tables of the imaging
  library (\<open>TAGS\<close>, \<open>GPSTAGS\<close>), the parser behind \<open>float(str)\<close>, the printer behind
  \<open>str\<close>/\<open>repr\<close> of a value that is not a string, and the two path functions of \<open>os.path\<close>.
  They are parameters of the model.
\<close>

record runtime =
  TAGS :: "int \<Rightarrow> string option"
  GPSTAGS :: "int \<Rightarrow> string option"
  parse_float :: "string \<Rightarrow> rat option"
  repr :: "pyval \<Rightarrow> string"
  abspath :: "string \<Rightarrow> string"
  basename :: "string \<Rightarrow> string"

subsection \<open>Builtins\<close>

text \<open>Truth value testing (\<open>if x:\<close>, \<open>not x\<close>, \<open>x and y\<close>).\<close>

fun truthy :: "pyval \<Rightarrow> bool" where
  "truthy PNone = False"
| "truthy (PBool b) = b"
| "truthy (PInt i) = (i \<noteq> 0)"
| "truthy (PFloat x) = (x \<noteq> 0)"
| "truthy (PStr s) = (s \<noteq> [])"
| "truthy (PBytes s) = (s \<noteq> [])"
| "truthy (PTuple xs) = (xs \<noteq> [])"
| "truthy (PDict d) = (d \<noteq> [])"

text \<open>\<open>hasattr(val, '__float__')\<close>: the numeric builtins have the method, nothing else has.\<close>

fun has_float :: "pyval \<Rightarrow> bool" where
  "has_float (PBool b) = True"
| "has_float (PInt i) = True"
| "has_float (PFloat x) = True"
| "has_float v = False"

text \<open>
  \<open>float(val)\<close>. An integer whose nearest binary64 value is not finite raises
  \<open>OverflowError\<close>: that is every \<open>i\<close> with \<open>|i| \<ge> 2^1024 - 2^970\<close>. A string or byte string
  is parsed (\<open>ValueError\<close> when it is no number); \<open>None\<close>, tuples and dictionaries raise
  \<open>TypeError\<close>.
\<close>

fun py_float :: "runtime \<Rightarrow> pyval \<Rightarrow> py_error + rat" where
  "py_float rt PNone = Inl TypeError"
| "py_float rt (PBool b) = Inr (if b then 1 else 0)"
| "py_float rt (PInt i) =
     (if 2 ^ 1024 - 2 ^ 970 \<le> \<bar>i\<bar> then Inl OverflowError else Inr (of_int i))"
| "py_float rt (PFloat x) = Inr x"
| "py_float rt (PStr s) =
     (case parse_float rt s of None \<Rightarrow> Inl ValueError | Some x \<Rightarrow> Inr x)"
| "py_float rt (PBytes s) =
     (case parse_float rt s of None \<Rightarrow> Inl ValueError | Some x \<Rightarrow> Inr x)"
| "py_float rt (PTuple xs) = Inl TypeError"
| "py_float rt (PDict d) = Inl TypeError"

text \<open>\<open>str(val)\<close>: a string is itself, any other value prints as the runtime prints it.\<close>

fun py_str :: "runtime \<Rightarrow> pyval \<Rightarrow> string" where
  "py_str rt (PStr s) = s"
| "py_str rt v = repr rt v"

text \<open>
  \<open>value[i]\<close> for the literal indices \<open>0\<close>, \<open>1\<close>, \<open>2\<close> of the source: out of range raises
  \<open>IndexError\<close>, a missing dictionary key \<open>KeyError\<close>, a value that is not subscriptable
  \<open>TypeError\<close>.
\<close>

fun py_getitem :: "pyval \<Rightarrow> nat \<Rightarrow> py_error + pyval" where
  "py_getitem (PTuple xs) i = (if i < length xs then Inr (xs ! i) else Inl IndexError)"
| "py_getitem (PStr s) i = (if i < length s then Inr (PStr [s ! i]) else Inl IndexError)"
| "py_getitem (PBytes s) i =
     (if i < length s then Inr (PInt (of_char (s ! i))) else Inl IndexError)"
| "py_getitem (PDict d) i =
     (case map_of d (KInt (int i)) of None \<Rightarrow> Inl KeyError | Some v \<Rightarrow> Inr v)"
| "py_getitem v i = Inl TypeError"

text \<open>
  \<open>round(x, ndigits)\<close> on a float: the nearest multiple of \<open>10^-ndigits\<close>, a tie going to
  the even multiple.
\<close>

definition round_half_even :: "rat \<Rightarrow> int" where
  "round_half_even x =
     (let f = \<lfloor>x\<rfloor>; r = x - of_int f
      in if r < 1 / 2 then f else if 1 / 2 < r then f + 1 else if even f then f else f + 1)"

definition py_round :: "rat \<Rightarrow> nat \<Rightarrow> rat" where
  "py_round x ndigits = of_int (round_half_even (x * 10 ^ ndigits)) / 10 ^ ndigits"

section \<open>Coordinate converter\<close>

text \<open>
  \<^verbatim>\<open>
  def convert_gps_coordinate(value, ref) -> float:
      degrees = float(value[0])
      minutes = float(value[1])
      seconds = float(value[2])
      decimal = degrees + (minutes / 60.0) + (seconds / 3600.0)
      if ref in ["S", "W"]:
          decimal = -decimal
      return round(decimal, 6)
  \<close>
  Each of the six steps that can raise is a \<open>case\<close> on its result, in the source's order.
\<close>

definition component :: "runtime \<Rightarrow> pyval \<Rightarrow> nat \<Rightarrow> py_error + rat" where
  "component rt value i =
     (case py_getitem value i of Inl e \<Rightarrow> Inl e | Inr v \<Rightarrow> py_float rt v)"

definition convert_gps_coordinate :: "runtime \<Rightarrow> pyval \<Rightarrow> pyval \<Rightarrow> py_error + rat" where
  "convert_gps_coordinate rt value ref =
     (case component rt value 0 of Inl e \<Rightarrow> Inl e | Inr degrees \<Rightarrow>
     (case component rt value 1 of Inl e \<Rightarrow> Inl e | Inr minutes \<Rightarrow>
     (case component rt value 2 of Inl e \<Rightarrow> Inl e | Inr seconds \<Rightarrow>
        let decimal = degrees + (minutes / 60) + (seconds / 3600);
            decimal = (if ref \<in> set [PStr ''S'', PStr ''W''] then - decimal else decimal)
        in Inr (py_round decimal 6))))"

section \<open>GPS extraction\<close>

text \<open>\<open>d.get(k)\<close>: the value stored under \<open>k\<close>, \<open>None\<close> when there is none.\<close>

definition dict_get :: "dict \<Rightarrow> pykey \<Rightarrow> pyval" where
  "dict_get d k = (case map_of d k of None \<Rightarrow> PNone | Some v \<Rightarrow> v)"

text \<open>
  \<open>TABLE.get(key, key)\<close> on a name table keyed by numeric tag ids: the name when the
  table has one, the key itself otherwise.
\<close>

definition tag_name :: "(int \<Rightarrow> string option) \<Rightarrow> pykey \<Rightarrow> pykey" where
  "tag_name table key =
     (case key of
        KInt i \<Rightarrow> (case table i of None \<Rightarrow> key | Some n \<Rightarrow> KStr n)
      | KStr s \<Rightarrow> key)"

text \<open>
  The loop that builds a dictionary keyed by resolved names, used for the GPS sub-mapping
  (\<open>gps[GPSTAGS.get(key, key)] = val\<close>) and for the top-level tags
  (\<open>exif_data[TAGS.get(tag_id, tag_id)] = value\<close>).
\<close>

definition resolve_names :: "(int \<Rightarrow> string option) \<Rightarrow> dict \<Rightarrow> dict" where
  "resolve_names table items =
     fold (\<lambda>(key, val) d. AList.update (tag_name table key) val d) items []"

text \<open>\<open>gps_info.items()\<close>: only a dictionary has the method.\<close>

fun py_items :: "pyval \<Rightarrow> py_error + dict" where
  "py_items (PDict d) = Inr d"
| "py_items v = Inl AttributeError"

text \<open>
  \<^verbatim>\<open>
  def extract_gps(exif_data: dict) -> dict | None:
      gps_info = exif_data.get("GPSInfo")
      if not gps_info:
          return None
      gps = {}
      for key, val in gps_info.items():
          gps[GPSTAGS.get(key, key)] = val
      lat = gps.get("GPSLatitude")
      lat_ref = gps.get("GPSLatitudeRef")
      lon = gps.get("GPSLongitude")
      lon_ref = gps.get("GPSLongitudeRef")
      alt = gps.get("GPSAltitude")
      result = {}
      if lat and lat_ref and lon and lon_ref:
          result["latitude"]  = convert_gps_coordinate(lat, lat_ref)
          result["longitude"] = convert_gps_coordinate(lon, lon_ref)
          result["maps_url"]  = f"https://maps.google.com/?q={result['latitude']},{result['longitude']}"
      if alt:
          result["altitude_meters"] = round(float(alt), 2)
      return result if result else None
  \<close>
  The two guarded blocks are \<open>gps_coordinates\<close> and \<open>gps_altitude\<close>; each returns the
  updated \<open>result\<close> or the exception that left it.
\<close>

definition maps_url :: "runtime \<Rightarrow> rat \<Rightarrow> rat \<Rightarrow> string" where
  "maps_url rt latitude longitude =
     ''https://maps.google.com/?q='' @ py_str rt (PFloat latitude) @ '','' @
     py_str rt (PFloat longitude)"

definition gps_coordinates :: "runtime \<Rightarrow> dict \<Rightarrow> dict \<Rightarrow> py_error + dict" where
  "gps_coordinates rt gps result =
     (let lat = dict_get gps (KStr ''GPSLatitude'');
          lat_ref = dict_get gps (KStr ''GPSLatitudeRef'');
          lon = dict_get gps (KStr ''GPSLongitude'');
          lon_ref = dict_get gps (KStr ''GPSLongitudeRef'')
      in if truthy lat \<and> truthy lat_ref \<and> truthy lon \<and> truthy lon_ref then
           (case convert_gps_coordinate rt lat lat_ref of Inl e \<Rightarrow> Inl e | Inr latitude \<Rightarrow>
           (case convert_gps_coordinate rt lon lon_ref of Inl e \<Rightarrow> Inl e | Inr longitude \<Rightarrow>
              Inr (AList.update (KStr ''maps_url'') (PStr (maps_url rt latitude longitude))
                    (AList.update (KStr ''longitude'') (PFloat longitude)
                      (AList.update (KStr ''latitude'') (PFloat latitude) result)))))
         else Inr result)"

definition gps_altitude :: "runtime \<Rightarrow> dict \<Rightarrow> dict \<Rightarrow> py_error + dict" where
  "gps_altitude rt gps result =
     (let alt = dict_get gps (KStr ''GPSAltitude'')
      in if truthy alt then
           (case py_float rt alt of Inl e \<Rightarrow> Inl e | Inr a \<Rightarrow>
              Inr (AList.update (KStr ''altitude_meters'') (PFloat (py_round a 2)) result))
         else Inr result)"

definition extract_gps :: "runtime \<Rightarrow> dict \<Rightarrow> py_error + dict option" where
  "extract_gps rt exif_data =
     (let gps_info = dict_get exif_data (KStr ''GPSInfo'')
      in if \<not> truthy gps_info then Inr None
         else
           (case py_items gps_info of Inl e \<Rightarrow> Inl e | Inr items \<Rightarrow>
              let gps = resolve_names (GPSTAGS rt) items
              in (case gps_coordinates rt gps [] of Inl e \<Rightarrow> Inl e | Inr result \<Rightarrow>
                 (case gps_altitude rt gps result of Inl e \<Rightarrow> Inl e | Inr result \<Rightarrow>
                    Inr (if result \<noteq> [] then Some result else None)))))"

section \<open>Reading the raw tags\<close>

text \<open>
  The files the extractor can be pointed at. A path names no file, or a file with a size
  and with what \<open>Image.open\<close> does on it: it raises an exception other than
  \<open>FileNotFoundError\<close> (an unreadable file, a corrupt or unknown container), carrying its
  message, or it returns an image. Of the image the source uses only \<open>_getexif()\<close>, which
  raises, returns \<open>None\<close> or returns the raw dictionary keyed by numeric tag ids.
  \<open>Image.open\<close> raises \<open>FileNotFoundError\<close> exactly on a path that names no file, and so
  does \<open>os.path.getsize\<close>; the size of a file that exists can be read whether or not the
  file opens as an image.
\<close>

datatype open_result =
    OpenError string
  | Image "py_error + dict option"

record file_node =
  st_size :: nat
  image_open :: open_result

type_synonym filesystem = "string \<Rightarrow> file_node option"

definition RED :: string where
  "RED = CHR 0x1B # ''[91m''"

definition RESET :: string where
  "RESET = CHR 0x1B # ''[0m''"

text \<open>
  \<^verbatim>\<open>
  def get_exif_data(image_path: str) -> dict:
      try:
          img = Image.open(image_path)
      except FileNotFoundError:
          print(f"{RED}Error: File not found: {image_path}{RESET}")
          return {}
      except Exception as e:
          print(f"{RED}Error opening image: {e}{RESET}")
          return {}
      exif_data = {}
      raw = img._getexif()
      if not raw:
          return {}
      for tag_id, value in raw.items():
          tag = TAGS.get(tag_id, tag_id)
          exif_data[tag] = value
      return exif_data
  \<close>
  The function returns the lines it printed together with its result.
\<close>

definition get_exif_data ::
    "runtime \<Rightarrow> filesystem \<Rightarrow> string \<Rightarrow> string list \<times> (py_error + dict)" where
  "get_exif_data rt fs image_path =
     (case fs image_path of
        None \<Rightarrow> ([RED @ ''Error: File not found: '' @ image_path @ RESET], Inr [])
      | Some f \<Rightarrow>
         (case image_open f of
            OpenError e \<Rightarrow> ([RED @ ''Error opening image: '' @ e @ RESET], Inr [])
          | Image getexif \<Rightarrow>
             ([], case getexif of
                    Inl e \<Rightarrow> Inl e
                  | Inr None \<Rightarrow> Inr []
                  | Inr (Some raw) \<Rightarrow>
                      if raw = [] then Inr [] else Inr (resolve_names (TAGS rt) raw))))"

text \<open>\<open>os.path.getsize(image_path)\<close>.\<close>

definition getsize :: "filesystem \<Rightarrow> string \<Rightarrow> py_error + nat" where
  "getsize fs image_path =
     (case fs image_path of None \<Rightarrow> Inl FileNotFoundError | Some f \<Rightarrow> Inr (st_size f))"

section \<open>Metadata classifier\<close>

text \<open>
  \<open>str.strip()\<close> removes the white space at both ends; among the code points below 256
  the white space characters are 9 to 13, 28 to 32, 133 and 160.
\<close>

definition is_space :: "char \<Rightarrow> bool" where
  "is_space c =
     (let n = (of_char c :: nat)
      in (9 \<le> n \<and> n \<le> 13) \<or> (28 \<le> n \<and> n \<le> 32) \<or> n = 133 \<or> n = 160)"

definition py_strip :: "string \<Rightarrow> string" where
  "py_strip s = rev (dropWhile is_space (rev (dropWhile is_space s)))"

definition device_tags :: "string list" where
  "device_tags = [''Make'', ''Model'', ''Software'', ''LensMake'', ''LensModel'']"

definition datetime_tags :: "string list" where
  "datetime_tags = [''DateTime'', ''DateTimeOriginal'', ''DateTimeDigitized'']"

definition image_tags :: "string list" where
  "image_tags =
     [''ExifImageWidth'', ''ExifImageHeight'', ''Orientation'',
      ''Flash'', ''FocalLength'', ''ExposureTime'', ''FNumber'',
      ''ISOSpeedRatings'', ''WhiteBalance'', ''ExposureMode'']"

definition skip :: "string list" where
  "skip = device_tags @ datetime_tags @ image_tags @ [''GPSInfo'', ''MakerNote'', ''UserComment'']"

text \<open>
  The four passes over the tags. Each is the \<open>for\<close> loop of the source as a \<open>fold\<close> over
  the list the loop runs through, starting from the empty bucket.
  \<^verbatim>\<open>
  for tag in device_tags:
      if tag in exif:
          result["device"][tag] = str(exif[tag]).strip()
  for tag in datetime_tags:
      if tag in exif:
          result["datetime"][tag] = str(exif[tag])
  \<close>
\<close>

definition device_pass :: "runtime \<Rightarrow> dict \<Rightarrow> dict" where
  "device_pass rt exif =
     fold (\<lambda>tag bucket.
             case map_of exif (KStr tag) of
               None \<Rightarrow> bucket
             | Some v \<Rightarrow> AList.update (KStr tag) (PStr (py_strip (py_str rt v))) bucket)
       device_tags []"

definition datetime_pass :: "runtime \<Rightarrow> dict \<Rightarrow> dict" where
  "datetime_pass rt exif =
     fold (\<lambda>tag bucket.
             case map_of exif (KStr tag) of
               None \<Rightarrow> bucket
             | Some v \<Rightarrow> AList.update (KStr tag) (PStr (py_str rt v)) bucket)
       datetime_tags []"

text \<open>
  \<^verbatim>\<open>
  for tag in image_tags:
      if tag in exif:
          val = exif[tag]
          try:
              result["image"][tag] = float(val) if hasattr(val, '__float__') else str(val)
          except Exception:
              result["image"][tag] = str(val)
  \<close>
  \<open>image_value\<close> is the value the \<open>try\<close> statement stores: that of the conditional
  expression, or the string form when evaluating it raised.
\<close>

definition image_value :: "runtime \<Rightarrow> pyval \<Rightarrow> pyval" where
  "image_value rt val =
     (case (if has_float val
            then (case py_float rt val of Inl e \<Rightarrow> Inl e | Inr x \<Rightarrow> Inr (PFloat x))
            else Inr (PStr (py_str rt val))) of
        Inr v \<Rightarrow> v
      | Inl e \<Rightarrow> PStr (py_str rt val))"

definition image_pass :: "runtime \<Rightarrow> dict \<Rightarrow> dict" where
  "image_pass rt exif =
     fold (\<lambda>tag bucket.
             case map_of exif (KStr tag) of
               None \<Rightarrow> bucket
             | Some val \<Rightarrow> AList.update (KStr tag) (image_value rt val) bucket)
       image_tags []"

text \<open>
  \<^verbatim>\<open>
  skip = set(device_tags + datetime_tags + image_tags + ["GPSInfo", "MakerNote", "UserComment"])
  for tag, val in exif.items():
      if tag not in skip:
          try:
              result["other"][tag] = str(val)
          except Exception:
              pass
  \<close>
  \<open>str\<close> raises on none of the values of the model, so the handler is never entered.
\<close>

definition other_pass :: "runtime \<Rightarrow> dict \<Rightarrow> dict" where
  "other_pass rt exif =
     fold (\<lambda>(tag, val) bucket.
             if tag \<notin> set (map KStr skip)
             then AList.update tag (PStr (py_str rt val)) bucket
             else bucket)
       exif []"

text \<open>The report: the dictionary with the six fixed keys that \<open>extract_metadata\<close> returns.\<close>

record report =
  r_file :: dict
  r_gps :: "dict option"
  r_device :: dict
  r_datetime :: dict
  r_image :: dict
  r_other :: dict

text \<open>
  \<^verbatim>\<open>
  def extract_metadata(image_path: str) -> dict:
      exif = get_exif_data(image_path)
      result = {
          "file": {
              "path":      os.path.abspath(image_path),
              "filename":  os.path.basename(image_path),
              "size_kb":   round(os.path.getsize(image_path) / 1024, 2),
          },
          "gps":    None,
          "device": {},
          "datetime": {},
          "image":  {},
          "other":  {},
      }
      if not exif:
          return result
      result["gps"] = extract_gps(exif)
      ...  the four passes ...
      return result
  \<close>
  \<open>file_info\<close> is the file block once the size is known, and \<open>classify\<close> is the function
  from \<open>if not exif\<close> on, given the file block and the tag map. \<open>extract_metadata\<close> reads
  the tags, then the size, then classifies; what \<open>get_exif_data\<close> printed is returned with
  the result.
\<close>

definition file_info :: "runtime \<Rightarrow> string \<Rightarrow> nat \<Rightarrow> dict" where
  "file_info rt image_path size_bytes =
     [(KStr ''path'', PStr (abspath rt image_path)),
      (KStr ''filename'', PStr (basename rt image_path)),
      (KStr ''size_kb'', PFloat (py_round (of_nat size_bytes / 1024) 2))]"

definition classify :: "runtime \<Rightarrow> dict \<Rightarrow> dict \<Rightarrow> py_error + report" where
  "classify rt file exif =
     (if exif = [] then
        Inr \<lparr>r_file = file, r_gps = None, r_device = [], r_datetime = [], r_image = [],
             r_other = []\<rparr>
      else
        (case extract_gps rt exif of
           Inl e \<Rightarrow> Inl e
         | Inr gps \<Rightarrow>
             Inr \<lparr>r_file = file, r_gps = gps, r_device = device_pass rt exif,
                  r_datetime = datetime_pass rt exif, r_image = image_pass rt exif,
                  r_other = other_pass rt exif\<rparr>))"

definition extract_metadata ::
    "runtime \<Rightarrow> filesystem \<Rightarrow> string \<Rightarrow> string list \<times> (py_error + report)" where
  "extract_metadata rt fs image_path =
     (case get_exif_data rt fs image_path of
        (out, Inl e) \<Rightarrow> (out, Inl e)
      | (out, Inr exif) \<Rightarrow>
         (out, case getsize fs image_path of
                 Inl e \<Rightarrow> Inl e
               | Inr size_bytes \<Rightarrow> classify rt (file_info rt image_path size_bytes) exif))"

section \<open>Specification vocabulary and example inputs\<close>

text \<open>The formula of the specification: \<open>decimal = degrees + minutes/60 + seconds/3600\<close>.\<close>

definition dms_decimal :: "rat \<Rightarrow> rat \<Rightarrow> rat \<Rightarrow> rat" where
  "dms_decimal degrees minutes seconds = degrees + minutes / 60 + seconds / 3600"

text \<open>
  \<open>q\<close> is \<open>x\<close> rounded to \<open>n\<close> decimal places: \<open>q\<close> has at most \<open>n\<close> decimals and lies within
  half a unit of the last place of \<open>x\<close>.
\<close>

definition rounded_to :: "nat \<Rightarrow> rat \<Rightarrow> rat \<Rightarrow> bool" where
  "rounded_to n x q =
     (of_int \<lfloor>q * 10 ^ n\<rfloor> = q * 10 ^ n \<and> \<bar>q - x\<bar> * (2 * 10 ^ n) \<le> 1)"

text \<open>
  A runtime for the concrete evaluations: the entries of the two name tables that the
  examples use, and the parsed and printed forms of the strings and numbers that occur in
  them (among them the decimal digits of \<open>2^1024\<close>, an integer too large for \<open>float\<close>).
\<close>

definition two_to_1024_digits :: string where
  "two_to_1024_digits =
     ''17976931348623159077293051907890247336179769789423065727343008115773267580550096'' @
     ''31327084773224075360211201138798713933576587897688144166224928474306394741243777'' @
     ''67893424865485276302219601246094119453082952085005768838150682342462881473913110'' @
     ''540827237163350510684586298239947245938479716304835356329624224137216''"

definition example_runtime :: runtime where
  "example_runtime =
     \<lparr>TAGS = map_of [(271, ''Make''), (272, ''Model''), (306, ''DateTime''),
                      (315, ''Artist''), (33434, ''ExposureTime''), (34853, ''GPSInfo''),
                      (37385, ''Flash''), (37386, ''FocalLength''), (37500, ''MakerNote'')],
      GPSTAGS = map_of [(1, ''GPSLatitudeRef''), (2, ''GPSLatitude''),
                         (3, ''GPSLongitudeRef''), (4, ''GPSLongitude''),
                         (5, ''GPSAltitudeRef''), (6, ''GPSAltitude'')],
      parse_float = map_of [(''40'', 40), (''1.5'', 3 / 2)],
      repr = (\<lambda>v. case map_of [(PFloat (40446111 / 1000000), ''40.446111''),
                                 (PFloat (- (73986389 / 1000000)), ''-73.986389''),
                                 (PInt 7, ''7''),
                                 (PInt (2 ^ 1024), two_to_1024_digits)] v of
                       None \<Rightarrow> ''?'' | Some s \<Rightarrow> s),
      abspath = (\<lambda>p. ''/photos/'' @ p),
      basename = (\<lambda>p. p)\<rparr>"

text \<open>
  The gate of the coordinate block, \<open>if lat and lat_ref and lon and lon_ref\<close>, on the GPS
  dictionary keyed by resolved names: the four fields are present and truthy.
\<close>

definition coordinates_present :: "dict \<Rightarrow> bool" where
  "coordinates_present gps =
     (truthy (dict_get gps (KStr ''GPSLatitude'')) \<and>
      truthy (dict_get gps (KStr ''GPSLatitudeRef'')) \<and>
      truthy (dict_get gps (KStr ''GPSLongitude'')) \<and>
      truthy (dict_get gps (KStr ''GPSLongitudeRef'')))"

text \<open>
  GPS sub-mappings as the decoder hands them over, keyed by numeric tag ids: a position
  (40 deg 26'46"N, 73 deg 59'11"W), an altitude of 125.125 m, a latitude and a
  position whose components are (numerator, denominator) pairs instead of numbers, and a
  position whose longitude minutes are a string that is no number.
\<close>

definition example_position :: dict where
  "example_position =
     [(KInt 1, PStr ''N''), (KInt 2, PTuple [PInt 40, PInt 26, PInt 46]),
      (KInt 3, PStr ''W''), (KInt 4, PTuple [PInt 73, PInt 59, PInt 11])]"

definition example_altitude :: dict where
  "example_altitude = [(KInt 6, PFloat (1001 / 8))]"

definition example_pairs_latitude :: dict where
  "example_pairs_latitude =
     [(KInt 1, PStr ''N''),
      (KInt 2, PTuple [PTuple [PInt 40, PInt 1], PTuple [PInt 26, PInt 1],
                       PTuple [PInt 46, PInt 1]])]"

definition example_pairs_position :: dict where
  "example_pairs_position =
     example_pairs_latitude @
     [(KInt 3, PStr ''W''),
      (KInt 4, PTuple [PTuple [PInt 73, PInt 1], PTuple [PInt 59, PInt 1],
                       PTuple [PInt 11, PInt 1]])]"

definition example_corrupt_longitude :: dict where
  "example_corrupt_longitude =
     [(KInt 1, PStr ''N''), (KInt 2, PTuple [PInt 40, PInt 26, PInt 46]),
      (KInt 3, PStr ''W''), (KInt 4, PTuple [PInt 73, PStr ''59 min'', PInt 11])]"

definition example_exif :: dict where
  "example_exif =
     [(KStr ''Make'', PStr ''Canon ''), (KStr ''GPSInfo'', PDict example_position)]"




text \<open>
  A small file system: a photo whose raw tags carry a make with trailing white space, an
  exposure time too large for \<open>float\<close>, a flash setting stored as a string, a maker note,
  a GPS position, and a tag id the name table does not know; and a text file that does
  not open as an image. \<open>example_tags\<close> is the photo's tag map with names resolved.
\<close>

definition example_raw :: dict where
  "example_raw =
     [(KInt 271, PStr ''Canon ''), (KInt 272, PStr ''EOS 5D''),
      (KInt 306, PStr ''2024:01:02 03:04:05''), (KInt 37386, PFloat 50),
      (KInt 33434, PInt (2 ^ 1024)), (KInt 37385, PStr ''16''),
      (KInt 37500, PBytes ''xyz''), (KInt 34853, PDict example_position),
      (KInt 315, PStr ''A. Adams''), (KInt 42, PInt 7)]"

definition example_tags :: dict where
  "example_tags =
     [(KStr ''Make'', PStr ''Canon ''), (KStr ''Model'', PStr ''EOS 5D''),
      (KStr ''DateTime'', PStr ''2024:01:02 03:04:05''), (KStr ''FocalLength'', PFloat 50),
      (KStr ''ExposureTime'', PInt (2 ^ 1024)), (KStr ''Flash'', PStr ''16''),
      (KStr ''MakerNote'', PBytes ''xyz''), (KStr ''GPSInfo'', PDict example_position),
      (KStr ''Artist'', PStr ''A. Adams''), (KInt 42, PInt 7)]"

definition example_files :: filesystem where
  "example_files =
     map_of [(''photo.jpg'', \<lparr>st_size = 2048, image_open = Image (Inr (Some example_raw))\<rparr>),
             (''notes.txt'', \<lparr>st_size = 10,
                              image_open = OpenError ''cannot identify image file''\<rparr>)]"

section \<open>Properties of rounding\<close>

lemma round_half_even_minus: "round_half_even (- x) = - round_half_even x"
proof (cases "x = of_int \<lfloor>x\<rfloor>")
  case True
  then obtain k :: int where "x = of_int k" ..
  then show ?thesis by (simp add: round_half_even_def)
next
  case False
  then have fl: "\<lfloor>- x\<rfloor> = - \<lfloor>x\<rfloor> - 1"
    by (simp add: floor_minus ceiling_altdef)
  have lt: "of_int \<lfloor>x\<rfloor> < x"
    using False of_int_floor_le [of x] by (auto simp: less_le)
  show ?thesis
    unfolding round_half_even_def Let_def fl
    using lt by (auto simp: algebra_simps)
qed

lemma round_half_even_near: "\<bar>of_int (round_half_even x) - x\<bar> \<le> 1 / 2"
  unfolding round_half_even_def Let_def
  by (auto simp: abs_if) linarith+

lemma round_half_even_nonneg: "0 \<le> x \<Longrightarrow> 0 \<le> round_half_even x"
  unfolding round_half_even_def Let_def by auto

lemma py_round_minus: "py_round (- x) n = - py_round x n"
  by (simp add: py_round_def round_half_even_minus)

lemma py_round_nonneg: "0 \<le> x \<Longrightarrow> 0 \<le> py_round x n"
  by (simp add: py_round_def round_half_even_nonneg)

lemma py_round_rounded_to: "rounded_to n x (py_round x n)"
proof -
  have "\<bar>py_round x n - x\<bar> * 10 ^ n = \<bar>(py_round x n - x) * 10 ^ n\<bar>"
    by (simp add: abs_mult)
  also have "(py_round x n - x) * 10 ^ n = of_int (round_half_even (x * 10 ^ n)) - x * 10 ^ n"
    by (simp add: py_round_def left_diff_distrib)
  finally have "\<bar>py_round x n - x\<bar> * 10 ^ n =
      \<bar>of_int (round_half_even (x * 10 ^ n)) - x * 10 ^ n\<bar>" .
  then show ?thesis
    using round_half_even_near [of "x * 10 ^ n"]
    by (simp add: rounded_to_def py_round_def)
qed

section \<open>Properties of the coordinate converter\<close>

lemma component_tuple3:
  "component rt (PTuple [v0, v1, v2]) 0 = py_float rt v0"
  "component rt (PTuple [v0, v1, v2]) (Suc 0) = py_float rt v1"
  "component rt (PTuple [v0, v1, v2]) 2 = py_float rt v2"
  by (simp_all add: component_def)

lemma convert_tuple3:
  assumes "py_float rt v0 = Inr d" "py_float rt v1 = Inr m" "py_float rt v2 = Inr s"
  shows "convert_gps_coordinate rt (PTuple [v0, v1, v2]) ref =
           Inr (py_round (if ref = PStr ''S'' \<or> ref = PStr ''W''
                          then - dms_decimal d m s else dms_decimal d m s) 6)"
  using assms
  by (simp add: convert_gps_coordinate_def component_tuple3 Let_def dms_decimal_def)



lemma convert_negated:
  assumes "ne \<noteq> PStr ''S''" "ne \<noteq> PStr ''W''" "sw = PStr ''S'' \<or> sw = PStr ''W''"
  shows "convert_gps_coordinate rt value sw =
           (case convert_gps_coordinate rt value ne of Inl e \<Rightarrow> Inl e | Inr x \<Rightarrow> Inr (- x))"
  using assms
  by (auto simp: convert_gps_coordinate_def Let_def py_round_minus split: sum.splits)

lemma dms_decimal_nonneg: "0 \<le> d \<Longrightarrow> 0 \<le> m \<Longrightarrow> 0 \<le> s \<Longrightarrow> 0 \<le> dms_decimal d m s"
  by (simp add: dms_decimal_def)

text \<open>
  C8. With reference \<open>"N"\<close> or \<open>"E"\<close> a triplet of non-negative components converts to a
  non-negative result; and for any value at all, converting with \<open>"S"\<close> or \<open>"W"\<close> gives
  exactly the negation of what converting with \<open>"N"\<close> or \<open>"E"\<close> gives (and raises the same
  exception when that conversion raises).
\<close>

theorem convert_gps_coordinate_hemispheres:
  assumes "ne = PStr ''N'' \<or> ne = PStr ''E''"
    and "sw = PStr ''S'' \<or> sw = PStr ''W''"
  shows "(py_float rt v0 = Inr d \<and> py_float rt v1 = Inr m \<and> py_float rt v2 = Inr s \<and>
          0 \<le> d \<and> 0 \<le> m \<and> 0 \<le> s \<longrightarrow>
            (\<exists>x. convert_gps_coordinate rt (PTuple [v0, v1, v2]) ne = Inr x \<and> 0 \<le> x)) \<and>
         convert_gps_coordinate rt value sw =
           (case convert_gps_coordinate rt value ne of Inl e \<Rightarrow> Inl e | Inr x \<Rightarrow> Inr (- x))"
proof -
  from assms(1) have ne: "ne \<noteq> PStr ''S''" "ne \<noteq> PStr ''W''" by auto
  have "\<exists>x. convert_gps_coordinate rt (PTuple [v0, v1, v2]) ne = Inr x \<and> 0 \<le> x"
    if "py_float rt v0 = Inr d" "py_float rt v1 = Inr m" "py_float rt v2 = Inr s"
      "0 \<le> d" "0 \<le> m" "0 \<le> s"
    using that ne by (simp add: convert_tuple3 py_round_nonneg dms_decimal_nonneg)
  moreover note convert_negated [OF ne assms(2), of rt "value"]
  ultimately show ?thesis by blast
qed

theorem convert_gps_coordinate_hemispheres_witness:
  "convert_gps_coordinate example_runtime (PTuple [PInt 40, PInt 26, PInt 46]) (PStr ''N'') =
     Inr (40446111 / 1000000) \<and>
   (0 :: rat) \<le> 40446111 / 1000000 \<and>
   convert_gps_coordinate example_runtime (PTuple [PInt 40, PInt 26, PInt 46]) (PStr ''S'') =
     Inr (- (40446111 / 1000000))"
proof -
  have n: "convert_gps_coordinate example_runtime (PTuple [PInt 40, PInt 26, PInt 46])
      (PStr ''N'') = Inr (40446111 / 1000000)"
    by code_simp
  show ?thesis
    using convert_gps_coordinate_hemispheres [of "PStr ''N''" "PStr ''S''" example_runtime
        "PInt 40" 40 "PInt 26" 26 "PInt 46" 46 "PTuple [PInt 40, PInt 26, PInt 46]"]
    by (simp add: n)
qed

text \<open>
  C7, as amended. The claim as stated fails: the converter does not look at the sign of
  the components, so a negative component gives a negative result under \<open>"N"\<close> and a
  positive one under \<open>"S"\<close>; and a zero result is not negative under \<open>"S"\<close>. For a
  triplet of non-negative components whose converted result is not zero, the result is
  negative exactly when the reference is \<open>"S"\<close> or \<open>"W"\<close>.
\<close>

theorem convert_gps_coordinate_sign:
  assumes "py_float rt v0 = Inr d" and "py_float rt v1 = Inr m" and "py_float rt v2 = Inr s"
    and "0 \<le> d" and "0 \<le> m" and "0 \<le> s"
    and "convert_gps_coordinate rt (PTuple [v0, v1, v2]) ref = Inr x"
    and "x \<noteq> 0"
  shows "x < 0 \<longleftrightarrow> ref = PStr ''S'' \<or> ref = PStr ''W''"
proof -
  have "0 \<le> py_round (dms_decimal d m s) 6"
    using assms(4-6) by (simp add: py_round_nonneg dms_decimal_nonneg)
  moreover have "x = (if ref = PStr ''S'' \<or> ref = PStr ''W''
      then - py_round (dms_decimal d m s) 6 else py_round (dms_decimal d m s) 6)"
    using assms(7) convert_tuple3 [OF assms(1-3), of ref]
    by (auto simp: py_round_minus split: if_splits)
  ultimately show ?thesis using assms(8) by (auto split: if_splits)
qed

theorem convert_gps_coordinate_sign_witness:
  "py_float example_runtime (PInt 40) = Inr 40 \<and>
   py_float example_runtime (PInt 26) = Inr 26 \<and>
   py_float example_runtime (PInt 46) = Inr 46 \<and>
   convert_gps_coordinate example_runtime (PTuple [PInt 40, PInt 26, PInt 46]) (PStr ''W'') =
     Inr (- (40446111 / 1000000)) \<and>
   - (40446111 / 1000000) \<noteq> (0 :: rat) \<and>
   - (40446111 / 1000000) < (0 :: rat) \<and>
   (PStr ''W'' = PStr ''S'' \<or> PStr ''W'' = PStr ''W'')"
proof -
  have f: "py_float example_runtime (PInt 40) = Inr 40"
    "py_float example_runtime (PInt 26) = Inr 26"
    "py_float example_runtime (PInt 46) = Inr 46"
    by simp_all
  have c: "convert_gps_coordinate example_runtime (PTuple [PInt 40, PInt 26, PInt 46])
      (PStr ''W'') = Inr (- (40446111 / 1000000))"
    by code_simp
  show ?thesis
    using f c convert_gps_coordinate_sign [OF f _ _ _ c]
    by simp
qed

theorem convert_gps_coordinate_sign_counterexample:
  "convert_gps_coordinate example_runtime (PTuple [PInt (- 1), PInt 0, PInt 0]) (PStr ''N'') =
     Inr (- 1) \<and>
   (- 1 :: rat) < 0 \<and> PStr ''N'' \<noteq> PStr ''S'' \<and> PStr ''N'' \<noteq> PStr ''W'' \<and>
   convert_gps_coordinate example_runtime (PTuple [PInt (- 1), PInt 0, PInt 0]) (PStr ''S'') =
     Inr 1 \<and>
   \<not> (1 :: rat) < 0 \<and>
   convert_gps_coordinate example_runtime (PTuple [PInt 0, PInt 0, PInt 0]) (PStr ''S'') =
     Inr 0 \<and>
   \<not> (0 :: rat) < 0"
  by code_simp

section \<open>Properties of the GPS extraction\<close>

lemma resolve_names_Nil [simp]: "resolve_names table [] = []"
  by (simp add: resolve_names_def)

lemma coordinates_present_Nil [simp]: "\<not> coordinates_present []"
  by (simp add: coordinates_present_def dict_get_def)

lemma coordinates_present_nonempty: "coordinates_present (resolve_names table items) \<Longrightarrow> items \<noteq> []"
  by auto

lemma gps_coordinates_present:
  assumes "coordinates_present gps"
  shows "gps_coordinates rt gps result =
     (case convert_gps_coordinate rt (dict_get gps (KStr ''GPSLatitude''))
             (dict_get gps (KStr ''GPSLatitudeRef'')) of
        Inl e \<Rightarrow> Inl e
      | Inr latitude \<Rightarrow>
         (case convert_gps_coordinate rt (dict_get gps (KStr ''GPSLongitude''))
                 (dict_get gps (KStr ''GPSLongitudeRef'')) of
            Inl e \<Rightarrow> Inl e
          | Inr longitude \<Rightarrow>
              Inr (AList.update (KStr ''maps_url'') (PStr (maps_url rt latitude longitude))
                    (AList.update (KStr ''longitude'') (PFloat longitude)
                      (AList.update (KStr ''latitude'') (PFloat latitude) result)))))"
  using assms by (simp add: gps_coordinates_def coordinates_present_def Let_def)

lemma gps_coordinates_absent:
  "\<not> coordinates_present gps \<Longrightarrow> gps_coordinates rt gps result = Inr result"
  by (auto simp: gps_coordinates_def coordinates_present_def Let_def)

lemma gps_altitude_falsy:
  "\<not> truthy (dict_get gps (KStr ''GPSAltitude'')) \<Longrightarrow> gps_altitude rt gps result = Inr result"
  by (simp add: gps_altitude_def Let_def)

lemma gps_altitude_float:
  "truthy (dict_get gps (KStr ''GPSAltitude'')) \<Longrightarrow>
   py_float rt (dict_get gps (KStr ''GPSAltitude'')) = Inr a \<Longrightarrow>
   gps_altitude rt gps result =
     Inr (AList.update (KStr ''altitude_meters'') (PFloat (py_round a 2)) result)"
  by (simp add: gps_altitude_def Let_def)

lemma extract_gps_dict:
  assumes "dict_get exif (KStr ''GPSInfo'') = PDict items" and "items \<noteq> []"
  shows "extract_gps rt exif =
     (case gps_coordinates rt (resolve_names (GPSTAGS rt) items) [] of
        Inl e \<Rightarrow> Inl e
      | Inr result \<Rightarrow>
         (case gps_altitude rt (resolve_names (GPSTAGS rt) items) result of
            Inl e \<Rightarrow> Inl e
          | Inr result \<Rightarrow> Inr (if result \<noteq> [] then Some result else None)))"
  using assms by (simp add: extract_gps_def Let_def)

lemma extract_gps_absent:
  "dict_get exif (KStr ''GPSInfo'') = PNone \<Longrightarrow> extract_gps rt exif = Inr None"
  by (simp add: extract_gps_def)

lemma extract_gps_empty_dict:
  "dict_get exif (KStr ''GPSInfo'') = PDict [] \<Longrightarrow> extract_gps rt exif = Inr None"
  by (simp add: extract_gps_def)

lemma extract_gps_not_empty: "extract_gps rt exif \<noteq> Inr (Some [])"
  by (auto simp: extract_gps_def Let_def split: sum.splits)

lemma keys_gps_coordinates:
  assumes "gps_coordinates rt gps [] = Inr result"
  shows "fst ` set result =
           (if coordinates_present gps
            then {KStr ''latitude'', KStr ''longitude'', KStr ''maps_url''} else {})"
proof (cases "coordinates_present gps")
  case True
  with assms show ?thesis
    by (auto simp: gps_coordinates_present split: sum.splits)
next
  case False
  with assms show ?thesis by (simp add: gps_coordinates_absent)
qed

lemma keys_gps_altitude:
  assumes "gps_altitude rt gps result = Inr result'"
  shows "fst ` set result' =
           fst ` set result \<union>
           (if truthy (dict_get gps (KStr ''GPSAltitude'')) then {KStr ''altitude_meters''} else {})"
proof (cases "truthy (dict_get gps (KStr ''GPSAltitude''))")
  case True
  with assms obtain a where "result' = AList.update (KStr ''altitude_meters'') (PFloat a) result"
    by (auto simp: gps_altitude_def Let_def split: sum.splits)
  with True show ?thesis by (simp add: AList.dom_update)
next
  case False
  with assms show ?thesis by (simp add: gps_altitude_def Let_def)
qed

lemma map_of_gps_altitude:
  assumes "gps_altitude rt gps result = Inr result'" and "k \<noteq> KStr ''altitude_meters''"
  shows "map_of result' k = map_of result k"
  using assms
  by (auto simp: gps_altitude_def Let_def AList.update_conv' split: if_splits sum.splits)

lemma extract_gps_Some:
  assumes "extract_gps rt exif = Inr (Some block)"
  obtains items result where "dict_get exif (KStr ''GPSInfo'') = PDict items"
    and "gps_coordinates rt (resolve_names (GPSTAGS rt) items) [] = Inr result"
    and "gps_altitude rt (resolve_names (GPSTAGS rt) items) result = Inr block"
    and "block \<noteq> []"
proof -
  from assms have t: "truthy (dict_get exif (KStr ''GPSInfo''))"
    by (auto simp: extract_gps_def Let_def split: if_splits)
  with assms obtain items where i: "py_items (dict_get exif (KStr ''GPSInfo'')) = Inr items"
    by (auto simp: extract_gps_def Let_def split: sum.splits)
  then have d: "dict_get exif (KStr ''GPSInfo'') = PDict items"
    by (cases "dict_get exif (KStr ''GPSInfo'')") auto
  from t d have "items \<noteq> []" by simp
  with assms d that show thesis
    by (auto simp: extract_gps_dict split: sum.splits if_splits)
qed

lemma example_position_resolved:
  "resolve_names (GPSTAGS example_runtime) example_position =
     [(KStr ''GPSLatitudeRef'', PStr ''N''),
      (KStr ''GPSLatitude'', PTuple [PInt 40, PInt 26, PInt 46]),
      (KStr ''GPSLongitudeRef'', PStr ''W''),
      (KStr ''GPSLongitude'', PTuple [PInt 73, PInt 59, PInt 11])]"
  by code_simp

lemma example_latitude:
  "convert_gps_coordinate example_runtime (PTuple [PInt 40, PInt 26, PInt 46]) (PStr ''N'') =
     Inr (40446111 / 1000000)"
  by code_simp

lemma example_longitude:
  "convert_gps_coordinate example_runtime (PTuple [PInt 73, PInt 59, PInt 11]) (PStr ''W'') =
     Inr (- (73986389 / 1000000))"
  by code_simp

text \<open>
  C2, as amended. The claim as stated fails: with the four coordinate fields present, an
  altitude that is truthy and does not coerce to a number, or a coordinate component that
  does not, makes \<open>extract_gps\<close> raise instead of producing a block. What holds: when the four fields are present and truthy,
  both coordinates convert, and the altitude is falsy or coerces to a number, the block
  holds the two converted coordinates and the map link built from their printed forms;
  when the four fields are not all present and truthy and the altitude is falsy (also
  when the map has no \<open>GPSInfo\<close> at all), the result is \<open>None\<close>; and an empty block is
  never returned.
\<close>

theorem extract_gps_block:
  assumes "dict_get exif (KStr ''GPSInfo'') = PDict items \<or>
           dict_get exif (KStr ''GPSInfo'') = PNone \<and> items = []"
    and "gps = resolve_names (GPSTAGS rt) items"
  shows "(coordinates_present gps \<and>
          convert_gps_coordinate rt (dict_get gps (KStr ''GPSLatitude''))
            (dict_get gps (KStr ''GPSLatitudeRef'')) = Inr latitude \<and>
          convert_gps_coordinate rt (dict_get gps (KStr ''GPSLongitude''))
            (dict_get gps (KStr ''GPSLongitudeRef'')) = Inr longitude \<and>
          (\<not> truthy (dict_get gps (KStr ''GPSAltitude'')) \<or>
           py_float rt (dict_get gps (KStr ''GPSAltitude'')) = Inr altitude) \<longrightarrow>
            (\<exists>block. extract_gps rt exif = Inr (Some block) \<and>
               map_of block (KStr ''latitude'') = Some (PFloat latitude) \<and>
               map_of block (KStr ''longitude'') = Some (PFloat longitude) \<and>
               map_of block (KStr ''maps_url'') =
                 Some (PStr (''https://maps.google.com/?q='' @ py_str rt (PFloat latitude) @
                             '','' @ py_str rt (PFloat longitude))))) \<and>
         (\<not> coordinates_present gps \<and> \<not> truthy (dict_get gps (KStr ''GPSAltitude'')) \<longrightarrow>
            extract_gps rt exif = Inr None) \<and>
         extract_gps rt exif \<noteq> Inr (Some [])"
proof (intro conjI impI)
  assume h: "coordinates_present gps \<and>
          convert_gps_coordinate rt (dict_get gps (KStr ''GPSLatitude''))
            (dict_get gps (KStr ''GPSLatitudeRef'')) = Inr latitude \<and>
          convert_gps_coordinate rt (dict_get gps (KStr ''GPSLongitude''))
            (dict_get gps (KStr ''GPSLongitudeRef'')) = Inr longitude \<and>
          (\<not> truthy (dict_get gps (KStr ''GPSAltitude'')) \<or>
           py_float rt (dict_get gps (KStr ''GPSAltitude'')) = Inr altitude)"
  then have p: "coordinates_present gps" by simp
  with assms have d: "dict_get exif (KStr ''GPSInfo'') = PDict items" and ne: "items \<noteq> []"
    by auto
  let ?result = "[(KStr ''latitude'', PFloat latitude), (KStr ''longitude'', PFloat longitude),
      (KStr ''maps_url'', PStr (maps_url rt latitude longitude))]"
  have c: "gps_coordinates rt gps [] = Inr ?result"
    using h by (simp add: gps_coordinates_present)
  have "\<exists>block. gps_altitude rt gps ?result = Inr block"
  proof (cases "truthy (dict_get gps (KStr ''GPSAltitude''))")
    case True
    with h show ?thesis by (simp add: gps_altitude_float)
  next
    case False
    then show ?thesis by (simp add: gps_altitude_falsy)
  qed
  then obtain block where a: "gps_altitude rt gps ?result = Inr block" ..
  then have m: "map_of block k = map_of ?result k" if "k \<noteq> KStr ''altitude_meters''" for k
    using that by (rule map_of_gps_altitude)
  have "block \<noteq> []" using m [of "KStr ''latitude''"] by auto
  then have "extract_gps rt exif = Inr (Some block)"
    using d ne c a assms(2) by (simp add: extract_gps_dict)
  moreover have "map_of block (KStr ''latitude'') = Some (PFloat latitude)"
    "map_of block (KStr ''longitude'') = Some (PFloat longitude)"
    "map_of block (KStr ''maps_url'') =
       Some (PStr (''https://maps.google.com/?q='' @ py_str rt (PFloat latitude) @
                   '','' @ py_str rt (PFloat longitude)))"
    by (simp_all add: m maps_url_def)
  ultimately show "\<exists>block. extract_gps rt exif = Inr (Some block) \<and>
               map_of block (KStr ''latitude'') = Some (PFloat latitude) \<and>
               map_of block (KStr ''longitude'') = Some (PFloat longitude) \<and>
               map_of block (KStr ''maps_url'') =
                 Some (PStr (''https://maps.google.com/?q='' @ py_str rt (PFloat latitude) @
                             '','' @ py_str rt (PFloat longitude)))"
    by blast
next
  assume h: "\<not> coordinates_present gps \<and> \<not> truthy (dict_get gps (KStr ''GPSAltitude''))"
  show "extract_gps rt exif = Inr None"
  proof (cases "items = []")
    case True
    with assms(1) show ?thesis by (auto simp: extract_gps_absent extract_gps_empty_dict)
  next
    case False
    with assms(1) have "dict_get exif (KStr ''GPSInfo'') = PDict items" by auto
    with False h assms(2) show ?thesis
      by (simp add: extract_gps_dict gps_coordinates_absent gps_altitude_falsy)
  qed
next
  show "extract_gps rt exif \<noteq> Inr (Some [])" by (rule extract_gps_not_empty)
qed

theorem extract_gps_block_witness:
  "dict_get example_exif (KStr ''GPSInfo'') = PDict example_position \<and>
   coordinates_present (resolve_names (GPSTAGS example_runtime) example_position) \<and>
   (\<exists>block. extract_gps example_runtime example_exif = Inr (Some block) \<and>
      map_of block (KStr ''latitude'') = Some (PFloat (40446111 / 1000000)) \<and>
      map_of block (KStr ''longitude'') = Some (PFloat (- (73986389 / 1000000))) \<and>
      map_of block (KStr ''maps_url'') =
        Some (PStr ''https://maps.google.com/?q=40.446111,-73.986389'')) \<and>
   dict_get [(KStr ''Make'', PStr ''Canon'')] (KStr ''GPSInfo'') = PNone \<and>
   extract_gps example_runtime [(KStr ''Make'', PStr ''Canon'')] = Inr None"
proof -
  let ?gps = "resolve_names (GPSTAGS example_runtime) example_position"
  have d: "dict_get example_exif (KStr ''GPSInfo'') = PDict example_position"
    by (simp add: example_exif_def dict_get_def)
  have p: "coordinates_present ?gps"
    by (simp add: example_position_resolved coordinates_present_def dict_get_def)
  have la: "convert_gps_coordinate example_runtime (dict_get ?gps (KStr ''GPSLatitude''))
      (dict_get ?gps (KStr ''GPSLatitudeRef'')) = Inr (40446111 / 1000000)"
    by (simp add: example_position_resolved dict_get_def example_latitude)
  have lo: "convert_gps_coordinate example_runtime (dict_get ?gps (KStr ''GPSLongitude''))
      (dict_get ?gps (KStr ''GPSLongitudeRef'')) = Inr (- (73986389 / 1000000))"
    by (simp add: example_position_resolved dict_get_def example_longitude)
  have al: "\<not> truthy (dict_get ?gps (KStr ''GPSAltitude''))"
    by (simp add: example_position_resolved dict_get_def)
  have s: "repr example_runtime (PFloat (40446111 / 1000000)) = ''40.446111''"
    "repr example_runtime (PFloat (- (73986389 / 1000000))) = ''-73.986389''"
    by (simp_all add: example_runtime_def)
  have n: "dict_get [(KStr ''Make'', PStr ''Canon'')] (KStr ''GPSInfo'') = PNone"
    by (simp add: dict_get_def)
  have e: "\<not> coordinates_present (resolve_names (GPSTAGS example_runtime) [])"
    "\<not> truthy (dict_get (resolve_names (GPSTAGS example_runtime) []) (KStr ''GPSAltitude''))"
    by (simp_all add: dict_get_def)
  show ?thesis
    using d p la lo al n e
      extract_gps_block [of example_exif example_position ?gps example_runtime
        "40446111 / 1000000" "- (73986389 / 1000000)" 0]
      extract_gps_block [of "[(KStr ''Make'', PStr ''Canon'')]" "[]"
        "resolve_names (GPSTAGS example_runtime) []" example_runtime 0 0 0]
    by (simp add: s)
qed

theorem extract_gps_block_counterexample:
  "coordinates_present
     (resolve_names (GPSTAGS example_runtime)
        (example_position @ [(KInt 6, PTuple [PInt 100, PInt 1])])) \<and>
   extract_gps example_runtime
     [(KStr ''GPSInfo'', PDict (example_position @ [(KInt 6, PTuple [PInt 100, PInt 1])]))] =
     Inl TypeError \<and>
   coordinates_present (resolve_names (GPSTAGS example_runtime) example_pairs_position) \<and>
   extract_gps example_runtime [(KStr ''GPSInfo'', PDict example_pairs_position)] =
     Inl TypeError"
  by code_simp

lemma convert_tuple3_error:
  assumes "\<exists>v \<in> set [v0, v1, v2]. isl (py_float rt v)"
  shows "\<exists>v e. v \<in> set [v0, v1, v2] \<and> py_float rt v = Inl e \<and>
           convert_gps_coordinate rt (PTuple [v0, v1, v2]) ref = Inl e"
  using assms
  by (cases "py_float rt v0"; cases "py_float rt v1"; cases "py_float rt v2")
     (auto simp: convert_gps_coordinate_def component_tuple3)

lemma convert_tuple3_value:
  assumes "\<not> (\<exists>v \<in> set [v0, v1, v2]. isl (py_float rt v))"
  shows "\<exists>x. convert_gps_coordinate rt (PTuple [v0, v1, v2]) ref = Inr x"
  using assms
  by (cases "py_float rt v0"; cases "py_float rt v1"; cases "py_float rt v2")
     (auto simp: convert_gps_coordinate_def component_tuple3 Let_def)

text \<open>
  C4, as amended. The claim as stated fails: the conversion runs only behind the gate, so
  a latitude with a component that is no number, in a record without a longitude, raises
  nothing; and only the first three components are read, so a fourth one that is no
  number raises nothing either. What holds: when the four coordinate fields are present and truthy, latitude
  and longitude are triplets, and one of the six components does not coerce to a number,
  \<open>extract_gps\<close> raises the exception of such a coercion.
\<close>

theorem extract_gps_conversion_error:
  assumes "dict_get exif (KStr ''GPSInfo'') = PDict items"
    and "gps = resolve_names (GPSTAGS rt) items"
    and "coordinates_present gps"
    and "dict_get gps (KStr ''GPSLatitude'') = PTuple [a0, a1, a2]"
    and "dict_get gps (KStr ''GPSLongitude'') = PTuple [b0, b1, b2]"
    and "\<exists>v \<in> set [a0, a1, a2, b0, b1, b2]. isl (py_float rt v)"
  shows "\<exists>v e. v \<in> set [a0, a1, a2, b0, b1, b2] \<and> py_float rt v = Inl e \<and>
           extract_gps rt exif = Inl e"
proof -
  from assms(2,3) have ne: "items \<noteq> []" by auto
  let ?lat_ref = "dict_get gps (KStr ''GPSLatitudeRef'')"
  let ?lon_ref = "dict_get gps (KStr ''GPSLongitudeRef'')"
  have x: "extract_gps rt exif = Inl e"
    if "gps_coordinates rt gps [] = Inl e" for e
    using that assms(1,2) ne by (simp add: extract_gps_dict)
  show ?thesis
  proof (cases "\<exists>v \<in> set [a0, a1, a2]. isl (py_float rt v)")
    case True
    then obtain v e where v: "v \<in> set [a0, a1, a2]" "py_float rt v = Inl e"
      and c: "convert_gps_coordinate rt (PTuple [a0, a1, a2]) ?lat_ref = Inl e"
      using convert_tuple3_error [of a0 a1 a2 rt ?lat_ref] by blast
    from c have "gps_coordinates rt gps [] = Inl e"
      using assms(3,4) by (simp add: gps_coordinates_present)
    then have "extract_gps rt exif = Inl e" by (rule x)
    with v show ?thesis by auto
  next
    case False
    then obtain y where a: "convert_gps_coordinate rt (PTuple [a0, a1, a2]) ?lat_ref = Inr y"
      using convert_tuple3_value [of a0 a1 a2 rt ?lat_ref] by blast
    from False assms(6) have "\<exists>v \<in> set [b0, b1, b2]. isl (py_float rt v)" by auto
    then obtain v e where v: "v \<in> set [b0, b1, b2]" "py_float rt v = Inl e"
      and c: "convert_gps_coordinate rt (PTuple [b0, b1, b2]) ?lon_ref = Inl e"
      using convert_tuple3_error [of b0 b1 b2 rt ?lon_ref] by blast
    from a c have "gps_coordinates rt gps [] = Inl e"
      using assms(3,4,5) by (simp add: gps_coordinates_present)
    then have "extract_gps rt exif = Inl e" by (rule x)
    with v show ?thesis by auto
  qed
qed

theorem extract_gps_conversion_error_witness:
  "dict_get [(KStr ''GPSInfo'', PDict example_corrupt_longitude)] (KStr ''GPSInfo'') =
     PDict example_corrupt_longitude \<and>
   coordinates_present (resolve_names (GPSTAGS example_runtime) example_corrupt_longitude) \<and>
   py_float example_runtime (PStr ''59 min'') = Inl ValueError \<and>
   extract_gps example_runtime [(KStr ''GPSInfo'', PDict example_corrupt_longitude)] =
     Inl ValueError"
proof -
  let ?g = "resolve_names (GPSTAGS example_runtime) example_corrupt_longitude"
  have g: "?g =
     [(KStr ''GPSLatitudeRef'', PStr ''N''),
      (KStr ''GPSLatitude'', PTuple [PInt 40, PInt 26, PInt 46]),
      (KStr ''GPSLongitudeRef'', PStr ''W''),
      (KStr ''GPSLongitude'', PTuple [PInt 73, PStr ''59 min'', PInt 11])]"
    by code_simp
  have d: "dict_get [(KStr ''GPSInfo'', PDict example_corrupt_longitude)] (KStr ''GPSInfo'') =
      PDict example_corrupt_longitude"
    by (simp add: dict_get_def)
  have p: "coordinates_present ?g"
    by (simp add: g coordinates_present_def dict_get_def)
  have l: "dict_get ?g (KStr ''GPSLatitude'') = PTuple [PInt 40, PInt 26, PInt 46]"
    "dict_get ?g (KStr ''GPSLongitude'') = PTuple [PInt 73, PStr ''59 min'', PInt 11]"
    by (simp_all add: g dict_get_def)
  have f: "py_float example_runtime (PStr ''59 min'') = Inl ValueError"
    by (simp add: example_runtime_def)
  have ok: "py_float example_runtime (PInt 40) = Inr 40"
    "py_float example_runtime (PInt 26) = Inr 26"
    "py_float example_runtime (PInt 46) = Inr 46"
    "py_float example_runtime (PInt 73) = Inr 73"
    "py_float example_runtime (PInt 11) = Inr 11"
    by simp_all
  have b: "\<exists>v \<in> set [PInt 40, PInt 26, PInt 46, PInt 73, PStr ''59 min'', PInt 11].
      isl (py_float example_runtime v)"
    using f by simp
  show ?thesis
    using d p f ok
      extract_gps_conversion_error [OF d refl p l b]
    by auto
qed

theorem extract_gps_conversion_error_counterexample:
  "py_float example_runtime (PTuple [PInt 40, PInt 1]) = Inl TypeError \<and>
   dict_get (resolve_names (GPSTAGS example_runtime) example_pairs_latitude)
     (KStr ''GPSLatitude'') =
     PTuple [PTuple [PInt 40, PInt 1], PTuple [PInt 26, PInt 1], PTuple [PInt 46, PInt 1]] \<and>
   extract_gps example_runtime [(KStr ''GPSInfo'', PDict example_pairs_latitude)] = Inr None \<and>
   py_float example_runtime PNone = Inl TypeError \<and>
   extract_gps example_runtime
     [(KStr ''GPSInfo'',
       PDict [(KInt 1, PStr ''N''), (KInt 2, PTuple [PInt 40, PInt 26, PInt 46, PNone]),
              (KInt 3, PStr ''W''), (KInt 4, PTuple [PInt 73, PInt 59, PInt 11])])] =
     Inr (Some [(KStr ''latitude'', PFloat (40446111 / 1000000)),
                (KStr ''longitude'', PFloat (- (73986389 / 1000000))),
                (KStr ''maps_url'', PStr ''https://maps.google.com/?q=40.446111,-73.986389'')])"
  by code_simp

text \<open>
  C5, as amended. The claim as stated fails: when the coordinate fields are present and
  their conversion raises, no block is produced, whatever the altitude; an altitude that
  does not coerce to a number raises; and an altitude of 0 is falsy and is left out. What
  holds: when
  the altitude is truthy and coerces to a number, and the coordinate fields are not all
  present and truthy or both convert, the block holds the altitude rounded to two decimal
  places.
\<close>

theorem extract_gps_altitude:
  assumes "dict_get exif (KStr ''GPSInfo'') = PDict items"
    and "gps = resolve_names (GPSTAGS rt) items"
    and "truthy (dict_get gps (KStr ''GPSAltitude''))"
    and "py_float rt (dict_get gps (KStr ''GPSAltitude'')) = Inr altitude"
    and "\<not> coordinates_present gps \<or>
         convert_gps_coordinate rt (dict_get gps (KStr ''GPSLatitude''))
           (dict_get gps (KStr ''GPSLatitudeRef'')) = Inr latitude \<and>
         convert_gps_coordinate rt (dict_get gps (KStr ''GPSLongitude''))
           (dict_get gps (KStr ''GPSLongitudeRef'')) = Inr longitude"
  shows "\<exists>block. extract_gps rt exif = Inr (Some block) \<and>
           map_of block (KStr ''altitude_meters'') = Some (PFloat (py_round altitude 2)) \<and>
           rounded_to 2 altitude (py_round altitude 2)"
proof -
  have "\<exists>result. gps_coordinates rt gps [] = Inr result"
  proof (cases "coordinates_present gps")
    case True
    with assms(5) show ?thesis by (simp add: gps_coordinates_present)
  next
    case False
    then show ?thesis by (simp add: gps_coordinates_absent)
  qed
  then obtain result where c: "gps_coordinates rt gps [] = Inr result" ..
  let ?block = "AList.update (KStr ''altitude_meters'') (PFloat (py_round altitude 2)) result"
  have a: "gps_altitude rt gps result = Inr ?block"
    using assms(3,4) by (rule gps_altitude_float)
  from assms(1,2,3) have "items \<noteq> []" by (auto simp: dict_get_def)
  then have "extract_gps rt exif = Inr (Some ?block)"
    using assms(1,2) c a by (simp add: extract_gps_dict)
  moreover have "map_of ?block (KStr ''altitude_meters'') = Some (PFloat (py_round altitude 2))"
    by (simp add: AList.update_conv')
  ultimately show ?thesis by (simp add: py_round_rounded_to)
qed

theorem extract_gps_altitude_witness:
  "dict_get [(KStr ''GPSInfo'', PDict example_altitude)] (KStr ''GPSInfo'') =
     PDict example_altitude \<and>
   \<not> coordinates_present (resolve_names (GPSTAGS example_runtime) example_altitude) \<and>
   dict_get (resolve_names (GPSTAGS example_runtime) example_altitude) (KStr ''GPSAltitude'') =
     PFloat (1001 / 8) \<and>
   (\<exists>block. extract_gps example_runtime [(KStr ''GPSInfo'', PDict example_altitude)] =
        Inr (Some block) \<and>
      map_of block (KStr ''altitude_meters'') = Some (PFloat (3128 / 25))) \<and>
   coordinates_present
     (resolve_names (GPSTAGS example_runtime) (example_position @ example_altitude)) \<and>
   (\<exists>block. extract_gps example_runtime
        [(KStr ''GPSInfo'', PDict (example_position @ example_altitude))] = Inr (Some block) \<and>
      map_of block (KStr ''altitude_meters'') = Some (PFloat (3128 / 25)))"
proof -
  let ?g1 = "resolve_names (GPSTAGS example_runtime) example_altitude"
  let ?g2 = "resolve_names (GPSTAGS example_runtime) (example_position @ example_altitude)"
  have g1: "?g1 = [(KStr ''GPSAltitude'', PFloat (1001 / 8))]"
    by code_simp
  have g2: "?g2 =
     [(KStr ''GPSLatitudeRef'', PStr ''N''),
      (KStr ''GPSLatitude'', PTuple [PInt 40, PInt 26, PInt 46]),
      (KStr ''GPSLongitudeRef'', PStr ''W''),
      (KStr ''GPSLongitude'', PTuple [PInt 73, PInt 59, PInt 11]),
      (KStr ''GPSAltitude'', PFloat (1001 / 8))]"
    by code_simp
  have r: "py_round (1001 / 8) 2 = 3128 / 25"
    by code_simp
  have d: "dict_get [(KStr ''GPSInfo'', PDict example_altitude)] (KStr ''GPSInfo'') =
      PDict example_altitude"
    "dict_get [(KStr ''GPSInfo'', PDict (example_position @ example_altitude))]
      (KStr ''GPSInfo'') = PDict (example_position @ example_altitude)"
    by (simp_all add: dict_get_def)
  have a: "dict_get ?g1 (KStr ''GPSAltitude'') = PFloat (1001 / 8)"
    "dict_get ?g2 (KStr ''GPSAltitude'') = PFloat (1001 / 8)"
    by (simp_all add: g1 g2 dict_get_def)
  have p: "\<not> coordinates_present ?g1" "coordinates_present ?g2"
    by (simp_all add: g1 g2 coordinates_present_def dict_get_def)
  have c: "convert_gps_coordinate example_runtime (dict_get ?g2 (KStr ''GPSLatitude''))
        (dict_get ?g2 (KStr ''GPSLatitudeRef'')) = Inr (40446111 / 1000000)"
    "convert_gps_coordinate example_runtime (dict_get ?g2 (KStr ''GPSLongitude''))
        (dict_get ?g2 (KStr ''GPSLongitudeRef'')) = Inr (- (73986389 / 1000000))"
    by (simp_all add: g2 dict_get_def example_latitude example_longitude)
  show ?thesis
    using d a p c
      extract_gps_altitude [of "[(KStr ''GPSInfo'', PDict example_altitude)]" example_altitude
        ?g1 example_runtime "1001 / 8" 0 0]
      extract_gps_altitude [of "[(KStr ''GPSInfo'', PDict (example_position @ example_altitude))]"
        "example_position @ example_altitude" ?g2 example_runtime "1001 / 8"
        "40446111 / 1000000" "- (73986389 / 1000000)"]
    by (simp add: r) blast
qed

theorem extract_gps_altitude_counterexample:
  "dict_get (resolve_names (GPSTAGS example_runtime) (example_pairs_position @ example_altitude))
     (KStr ''GPSAltitude'') = PFloat (1001 / 8) \<and>
   extract_gps example_runtime
     [(KStr ''GPSInfo'', PDict (example_pairs_position @ example_altitude))] = Inl TypeError \<and>
   extract_gps example_runtime [(KStr ''GPSInfo'', PDict [(KInt 6, PTuple [PInt 100, PInt 1])])] =
     Inl TypeError \<and>
   extract_gps example_runtime [(KStr ''GPSInfo'', PDict [(KInt 6, PInt 0)])] = Inr None"
  by code_simp

text \<open>
  C10. When \<open>extract_gps\<close> returns a block, \<open>GPSInfo\<close> is a sub-mapping and each of the
  keys \<open>latitude\<close>, \<open>longitude\<close> and \<open>maps_url\<close> is in the block exactly when latitude
  value, latitude reference, longitude value and longitude reference are all present and
  truthy: the three keys come together or not at all.
\<close>

theorem extract_gps_coordinate_keys:
  assumes "extract_gps rt exif = Inr (Some block)"
  shows "\<exists>items. dict_get exif (KStr ''GPSInfo'') = PDict items \<and>
           (KStr ''latitude'' \<in> fst ` set block \<longleftrightarrow>
              coordinates_present (resolve_names (GPSTAGS rt) items)) \<and>
           (KStr ''longitude'' \<in> fst ` set block \<longleftrightarrow>
              coordinates_present (resolve_names (GPSTAGS rt) items)) \<and>
           (KStr ''maps_url'' \<in> fst ` set block \<longleftrightarrow>
              coordinates_present (resolve_names (GPSTAGS rt) items))"
proof -
  from assms obtain items result
    where d: "dict_get exif (KStr ''GPSInfo'') = PDict items"
      and c: "gps_coordinates rt (resolve_names (GPSTAGS rt) items) [] = Inr result"
      and a: "gps_altitude rt (resolve_names (GPSTAGS rt) items) result = Inr block"
    by (rule extract_gps_Some)
  have "fst ` set block = fst ` set result \<union>
      (if truthy (dict_get (resolve_names (GPSTAGS rt) items) (KStr ''GPSAltitude''))
       then {KStr ''altitude_meters''} else {})"
    using a by (rule keys_gps_altitude)
  moreover note keys_gps_coordinates [OF c]
  ultimately show ?thesis using d by (auto split: if_splits)
qed

theorem extract_gps_coordinate_keys_witness:
  "extract_gps example_runtime example_exif =
     Inr (Some [(KStr ''latitude'', PFloat (40446111 / 1000000)),
                (KStr ''longitude'', PFloat (- (73986389 / 1000000))),
                (KStr ''maps_url'', PStr ''https://maps.google.com/?q=40.446111,-73.986389'')]) \<and>
   dict_get example_exif (KStr ''GPSInfo'') = PDict example_position \<and>
   coordinates_present (resolve_names (GPSTAGS example_runtime) example_position)"
proof -
  have x: "extract_gps example_runtime example_exif =
     Inr (Some [(KStr ''latitude'', PFloat (40446111 / 1000000)),
                (KStr ''longitude'', PFloat (- (73986389 / 1000000))),
                (KStr ''maps_url'', PStr ''https://maps.google.com/?q=40.446111,-73.986389'')])"
    by code_simp
  have d: "dict_get example_exif (KStr ''GPSInfo'') = PDict example_position"
    by (simp add: example_exif_def dict_get_def)
  show ?thesis
    using x d extract_gps_coordinate_keys [OF x] by simp
qed

section \<open>Properties of the classifier\<close>











lemma extract_metadata_classify:
  assumes "get_exif_data rt fs image_path = (out, Inr exif)"
    and "getsize fs image_path = Inr size_bytes"
  shows "extract_metadata rt fs image_path =
           (out, classify rt (file_info rt image_path size_bytes) exif)"
  using assms by (simp add: extract_metadata_def)

lemma passes_Nil:
  "device_pass rt [] = []" "datetime_pass rt [] = []" "image_pass rt [] = []"
  "other_pass rt [] = []"
  by (simp_all add: device_pass_def datetime_pass_def image_pass_def other_pass_def
      device_tags_def datetime_tags_def image_tags_def)

lemma classify_eq:
  assumes "extract_gps rt exif = Inr gps"
  shows "classify rt file exif =
           Inr \<lparr>r_file = file, r_gps = gps, r_device = device_pass rt exif,
                r_datetime = datetime_pass rt exif, r_image = image_pass rt exif,
                r_other = other_pass rt exif\<rparr>"
proof (cases "exif = []")
  case True
  with assms have "gps = None" by (simp add: extract_gps_def dict_get_def)
  with True show ?thesis by (simp add: classify_def passes_Nil)
next
  case False
  with assms show ?thesis by (simp add: classify_def)
qed




lemma example_get_exif_data:
  "get_exif_data example_runtime example_files ''photo.jpg'' = ([], Inr example_tags)"
  by code_simp

lemma example_getsize: "getsize example_files ''photo.jpg'' = Inr 2048"
  by code_simp

lemma example_extract_gps:
  "extract_gps example_runtime example_tags =
     Inr (Some [(KStr ''latitude'', PFloat (40446111 / 1000000)),
                (KStr ''longitude'', PFloat (- (73986389 / 1000000))),
                (KStr ''maps_url'', PStr ''https://maps.google.com/?q=40.446111,-73.986389'')])"
  by code_simp





text \<open>
  C6. On a path that names no file, \<open>get_exif_data\<close> prints the message and returns the
  empty map, but \<open>extract_metadata\<close> then raises \<open>FileNotFoundError\<close> from
  \<open>os.path.getsize\<close> while it builds the file block: no report is returned.
\<close>

theorem extract_metadata_missing_file:
  assumes "fs image_path = None"
  shows "extract_metadata rt fs image_path =
           ([RED @ ''Error: File not found: '' @ image_path @ RESET], Inl FileNotFoundError)"
  using assms by (simp add: extract_metadata_def get_exif_data_def getsize_def)

theorem extract_metadata_missing_file_witness:
  "example_files ''missing.jpg'' = None \<and>
   extract_metadata example_runtime example_files ''missing.jpg'' =
     ([RED @ ''Error: File not found: missing.jpg'' @ RESET], Inl FileNotFoundError)"
proof -
  have n: "example_files ''missing.jpg'' = None"
    by (simp add: example_files_def)
  show ?thesis
    using n extract_metadata_missing_file [of example_files "''missing.jpg''" example_runtime]
    by simp
qed

text \<open>
  On a file that exists and does not open as an image the report is returned, with the
  file block filled in and every other block empty or absent.
\<close>

lemma extract_metadata_unopenable:
  assumes "fs image_path = Some f" and "image_open f = OpenError e"
  shows "extract_metadata rt fs image_path =
           ([RED @ ''Error opening image: '' @ e @ RESET],
            Inr \<lparr>r_file = file_info rt image_path (st_size f), r_gps = None, r_device = [],
                 r_datetime = [], r_image = [], r_other = []\<rparr>)"
  using assms by (simp add: extract_metadata_def get_exif_data_def getsize_def classify_def)

text \<open>
  The report on the example photo: the make is stripped, the exposure time falls back to
  its string form, the maker note and the GPS sub-mapping are in no bucket, and the
  unresolved tag id is a key of the other bucket.
\<close>

lemma example_passes:
  "device_pass example_runtime example_tags =
     [(KStr ''Make'', PStr ''Canon''), (KStr ''Model'', PStr ''EOS 5D'')]"
  "datetime_pass example_runtime example_tags =
     [(KStr ''DateTime'', PStr ''2024:01:02 03:04:05'')]"
  "other_pass example_runtime example_tags =
     [(KStr ''Artist'', PStr ''A. Adams''), (KInt 42, PStr ''7'')]"
  by code_simp+

lemma example_image_pass:
  "image_pass example_runtime example_tags =
     [(KStr ''Flash'', PStr ''16''), (KStr ''FocalLength'', PFloat 50),
      (KStr ''ExposureTime'', PStr two_to_1024_digits)]"
  by (simp add: image_pass_def image_tags_def example_tags_def image_value_def
      example_runtime_def)

lemma example_file_info:
  "file_info example_runtime ''photo.jpg'' 2048 =
     [(KStr ''path'', PStr ''/photos/photo.jpg''), (KStr ''filename'', PStr ''photo.jpg''),
      (KStr ''size_kb'', PFloat 2)]"
  by (simp add: file_info_def py_round_def round_half_even_def example_runtime_def)

lemma example_report:
  "extract_metadata example_runtime example_files ''photo.jpg'' =
     ([],
      Inr \<lparr>r_file = [(KStr ''path'', PStr ''/photos/photo.jpg''),
                     (KStr ''filename'', PStr ''photo.jpg''),
                     (KStr ''size_kb'', PFloat 2)],
           r_gps = Some [(KStr ''latitude'', PFloat (40446111 / 1000000)),
                         (KStr ''longitude'', PFloat (- (73986389 / 1000000))),
                         (KStr ''maps_url'',
                          PStr ''https://maps.google.com/?q=40.446111,-73.986389'')],
           r_device = [(KStr ''Make'', PStr ''Canon''), (KStr ''Model'', PStr ''EOS 5D'')],
           r_datetime = [(KStr ''DateTime'', PStr ''2024:01:02 03:04:05'')],
           r_image = [(KStr ''Flash'', PStr ''16''), (KStr ''FocalLength'', PFloat 50),
                      (KStr ''ExposureTime'', PStr two_to_1024_digits)],
           r_other = [(KStr ''Artist'', PStr ''A. Adams''), (KInt 42, PStr ''7'')]\<rparr>)"
  by (simp add: extract_metadata_classify [OF example_get_exif_data example_getsize]
      classify_eq [OF example_extract_gps] example_passes example_image_pass
      example_file_info)

end
